theory Spec2Isabelle
  imports Complex_Main
begin

section \<open>JavaScript numbers and arrays\<close>

text \<open>
  The signal engine (\<open>signals.service.ts\<close>) computes on JavaScript numbers. A number is
  modelled as a real, or one of the three special values of IEEE arithmetic. Rounding and
  overflow of the 64-bit format are not modelled, and zero has no sign (a division of a
  nonzero number by zero takes the sign of the numerator). An out-of-range array read gives
  \<open>undefined\<close> in JavaScript, which arithmetic and comparisons treat as \<open>NaN\<close>; the model
  reads it as \<open>NaN\<close>. A theorem on finite inputs therefore describes the code up to rounding,
  and where no intermediate result leaves the range of the format.
\<close>

datatype number = Num real | PosInf | NegInf | NaN

instantiation number :: "{plus, uminus, minus, times, inverse, ord}"
begin

fun plus_number :: "number \<Rightarrow> number \<Rightarrow> number" where
  "plus_number (Num a) (Num b) = Num (a + b)"
| "plus_number NaN _ = NaN"
| "plus_number _ NaN = NaN"
| "plus_number PosInf NegInf = NaN"
| "plus_number NegInf PosInf = NaN"
| "plus_number PosInf _ = PosInf"
| "plus_number _ PosInf = PosInf"
| "plus_number NegInf _ = NegInf"
| "plus_number _ NegInf = NegInf"

fun uminus_number :: "number \<Rightarrow> number" where
  "uminus_number (Num a) = Num (- a)"
| "uminus_number PosInf = NegInf"
| "uminus_number NegInf = PosInf"
| "uminus_number NaN = NaN"

definition minus_number :: "number \<Rightarrow> number \<Rightarrow> number" where
  "minus_number a b = a + (- b)"

fun times_number :: "number \<Rightarrow> number \<Rightarrow> number" where
  "times_number (Num a) (Num b) = Num (a * b)"
| "times_number NaN _ = NaN"
| "times_number _ NaN = NaN"
| "times_number (Num a) PosInf = (if a = 0 then NaN else if 0 < a then PosInf else NegInf)"
| "times_number (Num a) NegInf = (if a = 0 then NaN else if 0 < a then NegInf else PosInf)"
| "times_number PosInf (Num b) = (if b = 0 then NaN else if 0 < b then PosInf else NegInf)"
| "times_number NegInf (Num b) = (if b = 0 then NaN else if 0 < b then NegInf else PosInf)"
| "times_number PosInf PosInf = PosInf"
| "times_number NegInf NegInf = PosInf"
| "times_number PosInf NegInf = NegInf"
| "times_number NegInf PosInf = NegInf"

fun divide_number :: "number \<Rightarrow> number \<Rightarrow> number" where
  "divide_number (Num a) (Num b) =
     (if b \<noteq> 0 then Num (a / b)
      else if 0 < a then PosInf else if a < 0 then NegInf else NaN)"
| "divide_number NaN _ = NaN"
| "divide_number _ NaN = NaN"
| "divide_number (Num a) PosInf = Num 0"
| "divide_number (Num a) NegInf = Num 0"
| "divide_number PosInf (Num b) = (if 0 \<le> b then PosInf else NegInf)"
| "divide_number NegInf (Num b) = (if 0 \<le> b then NegInf else PosInf)"
| "divide_number PosInf PosInf = NaN"
| "divide_number PosInf NegInf = NaN"
| "divide_number NegInf PosInf = NaN"
| "divide_number NegInf NegInf = NaN"

definition inverse_number :: "number \<Rightarrow> number" where
  "inverse_number a = (Num 1) div a"

fun less_number :: "number \<Rightarrow> number \<Rightarrow> bool" where
  "less_number (Num a) (Num b) = (a < b)"
| "less_number NaN _ = False"
| "less_number _ NaN = False"
| "less_number _ NegInf = False"
| "less_number NegInf _ = True"
| "less_number PosInf _ = False"
| "less_number _ PosInf = True"

fun less_eq_number :: "number \<Rightarrow> number \<Rightarrow> bool" where
  "less_eq_number (Num a) (Num b) = (a \<le> b)"
| "less_eq_number NaN _ = False"
| "less_eq_number _ NaN = False"
| "less_eq_number NegInf _ = True"
| "less_eq_number _ NegInf = False"
| "less_eq_number _ PosInf = True"
| "less_eq_number PosInf _ = False"

instance ..

end

text \<open>The functions of \<open>Math\<close> that the engine calls.\<close>

fun Math_abs :: "number \<Rightarrow> number" where
  "Math_abs (Num a) = Num \<bar>a\<bar>"
| "Math_abs NaN = NaN"
| "Math_abs _ = PosInf"

fun Math_sqrt :: "number \<Rightarrow> number" where
  "Math_sqrt (Num a) = (if a < 0 then NaN else Num (sqrt a))"
| "Math_sqrt PosInf = PosInf"
| "Math_sqrt _ = NaN"

fun Math_pow :: "number \<Rightarrow> nat \<Rightarrow> number" where
  "Math_pow x 0 = Num 1"
| "Math_pow x (Suc n) = x * Math_pow x n"

fun Math_max :: "number \<Rightarrow> number \<Rightarrow> number" where
  "Math_max NaN _ = NaN"
| "Math_max _ NaN = NaN"
| "Math_max a b = (if a < b then b else a)"

fun Math_min :: "number \<Rightarrow> number \<Rightarrow> number" where
  "Math_min NaN _ = NaN"
| "Math_min _ NaN = NaN"
| "Math_min a b = (if b < a then b else a)"

fun Math_round :: "number \<Rightarrow> number" where
  "Math_round (Num a) = Num (of_int \<lfloor>a + 1 / 2\<rfloor>)"
| "Math_round x = x"

text \<open>
  \<open>xs.slice(start, end)\<close>: a negative bound counts from the end of the array, and both
  bounds are clipped to the array. \<open>slice_from xs start\<close> is \<open>xs.slice(start)\<close>.
  \<open>map_index f xs\<close> is \<open>xs.map((p, i) => f(p, i))\<close>.
\<close>

definition slice :: "'a list \<Rightarrow> int \<Rightarrow> int \<Rightarrow> 'a list" where
  "slice xs start stop =
     (let len = int (length xs);
          k = (if start < 0 then max (len + start) 0 else min start len);
          final = (if stop < 0 then max (len + stop) 0 else min stop len)
      in take (nat (final - k)) (drop (nat k) xs))"

definition slice_from :: "'a list \<Rightarrow> int \<Rightarrow> 'a list" where
  "slice_from xs start = slice xs start (int (length xs))"

definition map_index :: "('a \<Rightarrow> nat \<Rightarrow> 'b) \<Rightarrow> 'a list \<Rightarrow> 'b list" where
  "map_index f xs = map (\<lambda>i. f (xs ! i) i) [0..<length xs]"

text \<open>\<open>xs[i]\<close> on an array of numbers: \<open>undefined\<close> (here \<open>NaN\<close>) out of range.\<close>

definition elem_at :: "number list \<Rightarrow> int \<Rightarrow> number" where
  "elem_at xs i = (if 0 \<le> i \<and> i < int (length xs) then xs ! nat i else NaN)"

text \<open>\<open>a || b\<close> on numbers: \<open>a\<close> unless it is falsy (zero, \<open>NaN\<close> or \<open>undefined\<close>).\<close>

definition js_or :: "number \<Rightarrow> number \<Rightarrow> number" where
  "js_or a b = (if a = Num 0 \<or> a = NaN then b else a)"

text \<open>\<open>xs.reduce((a, b) => a + b, 0)\<close>: a left fold from 0.\<close>

definition reduce_add :: "number list \<Rightarrow> number" where
  "reduce_add xs = foldl (+) (Num 0) xs"

text \<open>
  \<open>xs.sort(cmp)\<close>: the order of the result is fixed by the language for a consistent
  comparator (the sort is stable); it is modelled by a stable insertion sort that puts
  \<open>a\<close> after \<open>b\<close> exactly when \<open>cmp a b > 0\<close>.
\<close>

fun insert_by :: "('a \<Rightarrow> 'a \<Rightarrow> number) \<Rightarrow> 'a \<Rightarrow> 'a list \<Rightarrow> 'a list" where
  "insert_by cmp x [] = [x]"
| "insert_by cmp x (y # ys) =
     (if Num 0 < cmp x y then y # insert_by cmp x ys else x # y # ys)"

definition sort_by :: "('a \<Rightarrow> 'a \<Rightarrow> number) \<Rightarrow> 'a list \<Rightarrow> 'a list" where
  "sort_by cmp xs = foldr (insert_by cmp) xs []"

section \<open>The data of the engine\<close>

datatype SignalStrength = strong_buy | buy | neutral | sell | strong_sell

datatype Trend = bullish | bearish | sideways

datatype Volatility = low | medium | high

record TechnicalIndicator =
  ind_name :: string
  ind_value :: number
  ind_signal :: SignalStrength
  ind_interpretation :: string

record TradingSignal =
  symbol :: string
  currentPrice :: number
  overallSignal :: SignalStrength
  confidence :: number
  indicators :: "TechnicalIndicator list"
  supportLevel :: number
  resistanceLevel :: number
  trend :: Trend
  volatility :: Volatility
  summary :: string
  generatedAt :: string

text \<open>
  A point of the fetched history. The fetch (an HTTP call) is outside the engine; its
  result is the argument of the model, with finite real fields.
\<close>

record PriceData =
  timestamp :: real
  price :: real
  volume :: real

datatype error = Error string

text \<open>
  What the engine takes from the language runtime: the reading of the clock, as
  \<open>new Date().toISOString()\<close> returns it at the call, and the conversion of a number to
  the text of a template literal.
\<close>

record runtime =
  now_toISOString :: string
  number_toString :: "number \<Rightarrow> string"

section \<open>Technical analysis functions\<close>

definition calculateRSI :: "number list \<Rightarrow> nat \<Rightarrow> number" where
  "calculateRSI prices period =
     (if length prices < period + 1 then Num 50
      else
        let changes = slice_from
              (map_index (\<lambda>p i. if i = 0 then Num 0 else p - elem_at (slice_from prices (- int period - 1)) (int i - 1))
                 (slice_from prices (- int period - 1))) 1;
            gains = filter (\<lambda>c. Num 0 < c) changes;
            losses = map Math_abs (filter (\<lambda>c. c < Num 0) changes);
            avgGain = (if 0 < length gains then reduce_add gains / Num (real period) else Num 0);
            avgLoss = (if 0 < length losses then reduce_add losses / Num (real period) else Num 0)
        in if avgLoss = Num 0 then Num 100
           else let rs = avgGain / avgLoss in Num 100 - Num 100 / (Num 1 + rs))"

definition calculateSMA :: "number list \<Rightarrow> nat \<Rightarrow> number" where
  "calculateSMA prices period =
     (let sl = slice_from prices (- int period)
      in reduce_add sl / Num (real (length sl)))"

text \<open>The loop of \<open>calculateEMA\<close>, over \<open>prices[1]\<close>, \<open>prices[2]\<close>, ...\<close>

fun ema_loop :: "number \<Rightarrow> number \<Rightarrow> number list \<Rightarrow> number" where
  "ema_loop k ema [] = ema"
| "ema_loop k ema (p # ps) = ema_loop k (p * k + ema * (Num 1 - k)) ps"

definition calculateEMA :: "number list \<Rightarrow> nat \<Rightarrow> number" where
  "calculateEMA prices period =
     (let k = Num 2 / (Num (real period) + Num 1);
          ema = elem_at prices 0
      in ema_loop k ema (drop 1 prices))"

record MACD =
  macd :: number
  signal :: number
  histogram :: number

definition calculateMACD :: "number list \<Rightarrow> MACD" where
  "calculateMACD prices =
     (let ema12 = calculateEMA prices 12;
          ema26 = calculateEMA prices 26;
          m = ema12 - ema26;
          s = calculateEMA (slice prices 0 (- 9) @ [m]) 9
      in \<lparr>macd = m, signal = s, histogram = m - s\<rparr>)"

definition calculateVolumeTrend :: "number list \<Rightarrow> number" where
  "calculateVolumeTrend volumes =
     (if length volumes < 10 then Num 0
      else
        let recent = reduce_add (slice_from volumes (- 5)) / Num 5;
            previous = reduce_add (slice volumes (- 10) (- 5)) / Num 5
        in if Num 0 < previous then (recent - previous) / previous else Num 0)"

record Levels =
  support :: number
  resistance :: number

definition calculateSupportResistance :: "number list \<Rightarrow> Levels" where
  "calculateSupportResistance prices =
     (let sorted = sort_by (\<lambda>a b. a - b) prices;
          lo = elem_at sorted \<lfloor>real (length sorted) * (1 / 10)\<rfloor>;
          hi = elem_at sorted \<lfloor>real (length sorted) * (9 / 10)\<rfloor>
      in \<lparr>support = lo, resistance = hi\<rparr>)"

definition calculateVariance :: "number list \<Rightarrow> number" where
  "calculateVariance vals =
     (let mean = reduce_add vals / Num (real (length vals))
      in foldl (\<lambda>sum v. sum + Math_pow (v - mean) 2) (Num 0) vals / Num (real (length vals)))"

definition calculateVolatility :: "number list \<Rightarrow> Volatility" where
  "calculateVolatility prices =
     (let returns = map_index (\<lambda>p i. (p - elem_at prices (int i)) / elem_at prices (int i))
                      (slice_from prices 1);
          variance = calculateVariance returns;
          vol = Math_sqrt variance * Num 100
      in if vol < Num 2 then low else if vol < Num 5 then medium else high)"

definition determineTrend :: "number list \<Rightarrow> number \<Rightarrow> number \<Rightarrow> Trend" where
  "determineTrend prices sma20 sma50 =
     (let current = elem_at prices (int (length prices) - 1);
          weekAgo = js_or (elem_at prices (int (length prices) - 8)) (elem_at prices 0);
          priceChange = (current - weekAgo) / weekAgo
      in if sma20 < current \<and> sma50 < sma20 \<and> Num (2 / 100) < priceChange then bullish
         else if current < sma20 \<and> sma20 < sma50 \<and> priceChange < Num (- (2 / 100)) then bearish
         else sideways)"

section \<open>Signal conversion functions\<close>

definition rsiToSignal :: "number \<Rightarrow> SignalStrength" where
  "rsiToSignal rsi =
     (if rsi < Num 20 then strong_buy
      else if rsi < Num 30 then buy
      else if Num 80 < rsi then strong_sell
      else if Num 70 < rsi then sell
      else neutral)"

definition rsiInterpretation :: "number \<Rightarrow> string" where
  "rsiInterpretation rsi =
     (if rsi < Num 20 then ''Extremely oversold - potential reversal''
      else if rsi < Num 30 then ''Oversold territory''
      else if Num 80 < rsi then ''Extremely overbought - potential reversal''
      else if Num 70 < rsi then ''Overbought territory''
      else ''Neutral momentum'')"

definition macdToSignal :: "MACD \<Rightarrow> SignalStrength" where
  "macdToSignal m =
     (if Num 0 < histogram m \<and> signal m < macd m then
        (if Num (1 / 100) < histogram m then strong_buy else buy)
      else if histogram m < Num 0 \<and> macd m < signal m then
        (if histogram m < Num (- (1 / 100)) then strong_sell else sell)
      else neutral)"

fun signalToScore :: "SignalStrength \<Rightarrow> number" where
  "signalToScore strong_buy = Num 2"
| "signalToScore buy = Num 1"
| "signalToScore neutral = Num 0"
| "signalToScore sell = Num (- 1)"
| "signalToScore strong_sell = Num (- 2)"

definition scoreToSignal :: "number \<Rightarrow> SignalStrength" where
  "scoreToSignal score =
     (if Num (3 / 2) \<le> score then strong_buy
      else if Num (1 / 2) \<le> score then buy
      else if score \<le> Num (- (3 / 2)) then strong_sell
      else if score \<le> Num (- (1 / 2)) then sell
      else neutral)"

section \<open>The report\<close>

text \<open>
  Texts of the summary. \<open>toUpperCase\<close> is modelled on ASCII letters, which is what ticker
  symbols are made of; \<open>count_toString\<close> is the decimal text of a count, as a template
  literal prints it.
\<close>

definition toUpperCase :: "string \<Rightarrow> string" where
  "toUpperCase s =
     map (\<lambda>c. if 97 \<le> (of_char c :: nat) \<and> (of_char c :: nat) \<le> 122
              then char_of ((of_char c :: nat) - 32) else c) s"

definition digit :: "nat \<Rightarrow> char" where
  "digit d = char_of (48 + d)"

fun count_toString :: "nat \<Rightarrow> string" where
  "count_toString n =
     (if n < 10 then [digit n] else count_toString (n div 10) @ [digit (n mod 10)])"

declare count_toString.simps [simp del]

fun signalText :: "SignalStrength \<Rightarrow> string" where
  "signalText strong_buy = ''Strong Buy''"
| "signalText buy = ''Buy''"
| "signalText neutral = ''Hold/Neutral''"
| "signalText sell = ''Sell''"
| "signalText strong_sell = ''Strong Sell''"

fun trendText :: "Trend \<Rightarrow> string" where
  "trendText bullish = ''bullish''"
| "trendText bearish = ''bearish''"
| "trendText sideways = ''sideways''"

definition generateSummary ::
  "runtime \<Rightarrow> string \<Rightarrow> SignalStrength \<Rightarrow> number \<Rightarrow> Trend \<Rightarrow> TechnicalIndicator list \<Rightarrow> string" where
  "generateSummary rt symb sig conf tr inds =
     (let bullishIndicators =
            length (filter (\<lambda>i. ind_signal i = buy \<or> ind_signal i = strong_buy) inds);
          bearishIndicators =
            length (filter (\<lambda>i. ind_signal i = sell \<or> ind_signal i = strong_sell) inds)
      in toUpperCase symb @ '': '' @ signalText sig @ '' ('' @ number_toString rt conf
           @ ''% confidence). '' @ ''The '' @ trendText tr @ '' trend is supported by ''
           @ count_toString bullishIndicators @ '' bullish and ''
           @ count_toString bearishIndicators @ '' bearish indicators out of ''
           @ count_toString (length inds) @ '' analyzed.'')"

text \<open>The five object literals that \<open>generateTradingSignals\<close> pushes, in their order.\<close>

definition rsiIndicator :: "number \<Rightarrow> TechnicalIndicator" where
  "rsiIndicator rsi =
     \<lparr>ind_name = ''RSI (14)'', ind_value = rsi, ind_signal = rsiToSignal rsi,
      ind_interpretation = rsiInterpretation rsi\<rparr>"

definition sma20Indicator :: "number \<Rightarrow> number \<Rightarrow> TechnicalIndicator" where
  "sma20Indicator cur sma20 =
     \<lparr>ind_name = ''SMA 20'', ind_value = sma20,
      ind_signal = (if sma20 < cur then buy else sell),
      ind_interpretation =
        (if sma20 < cur then ''Price above 20-day SMA (bullish)''
         else ''Price below 20-day SMA (bearish)'')\<rparr>"

definition sma50Indicator :: "number \<Rightarrow> number \<Rightarrow> TechnicalIndicator" where
  "sma50Indicator cur sma50 =
     \<lparr>ind_name = ''SMA 50'', ind_value = sma50,
      ind_signal = (if sma50 < cur then buy else sell),
      ind_interpretation =
        (if sma50 < cur then ''Price above 50-day SMA (bullish)''
         else ''Price below 50-day SMA (bearish)'')\<rparr>"

definition macdIndicator :: "MACD \<Rightarrow> TechnicalIndicator" where
  "macdIndicator m =
     \<lparr>ind_name = ''MACD'', ind_value = histogram m, ind_signal = macdToSignal m,
      ind_interpretation =
        (if Num 0 < histogram m then ''MACD histogram positive (bullish momentum)''
         else ''MACD histogram negative (bearish momentum)'')\<rparr>"

definition volumeIndicator :: "number \<Rightarrow> TechnicalIndicator" where
  "volumeIndicator volumeTrend =
     \<lparr>ind_name = ''Volume Trend'', ind_value = volumeTrend,
      ind_signal =
        (if Num 0 < volumeTrend then buy
         else if volumeTrend < Num (- (1 / 10)) then sell else neutral),
      ind_interpretation =
        (if Num (1 / 10) < volumeTrend then ''Volume increasing (confirms trend)''
         else if volumeTrend < Num (- (1 / 10)) then ''Volume decreasing (weakening trend)''
         else ''Volume stable'')\<rparr>"

text \<open>
  \<open>generateTradingSignals\<close>, from the fetched history on. The five \<open>push\<close> calls build the
  list \<open>inds\<close>; the \<open>throw\<close> is the \<open>Inl\<close> result.
\<close>

definition generateTradingSignals :: "runtime \<Rightarrow> string \<Rightarrow> PriceData list \<Rightarrow> error + TradingSignal" where
  "generateTradingSignals rt symb priceHistory =
     (if length priceHistory < 14 then
        Inl (Error ''Insufficient price history for technical analysis'')
      else
        let cur = Num (price (priceHistory ! (length priceHistory - 1)));
            prices = map (\<lambda>p. Num (price p)) priceHistory;
            volumes = map (\<lambda>p. Num (volume p)) priceHistory;
            rsi = calculateRSI prices 14;
            sma20 = calculateSMA prices 20;
            sma50 = calculateSMA prices (min 50 (length prices));
            m = calculateMACD prices;
            volumeTrend = calculateVolumeTrend volumes;
            inds = [rsiIndicator rsi, sma20Indicator cur sma20, sma50Indicator cur sma50,
                    macdIndicator m, volumeIndicator volumeTrend];
            lv = calculateSupportResistance prices;
            signalScores = map (\<lambda>i. signalToScore (ind_signal i)) inds;
            avgScore = reduce_add signalScores / Num (real (length signalScores));
            overall = scoreToSignal avgScore;
            signalVariance = calculateVariance signalScores;
            conf = Math_max (Num 0) (Math_min (Num 100) (Num 100 - signalVariance * Num 20));
            tr = determineTrend prices sma20 sma50;
            vol = calculateVolatility prices;
            summ = generateSummary rt symb overall conf tr inds
        in Inr \<lparr>symbol = toUpperCase symb, currentPrice = cur, overallSignal = overall,
                 confidence = Math_round conf, indicators = inds,
                 supportLevel = support lv, resistanceLevel = resistance lv,
                 trend = tr, volatility = vol, summary = summ,
                 generatedAt = now_toISOString rt\<rparr>)"

section \<open>The engine on a store of arrays\<close>

text \<open>
  JavaScript arrays are objects: a function is given a reference, and \<open>sort\<close> and \<open>push\<close>
  change the array they are called on. The store is the list of the arrays allocated so
  far, a reference is an index into it. \<open>map\<close>, the spread \<open>[...xs]\<close> and an array literal
  allocate; \<open>slice\<close>, \<open>filter\<close> and \<open>reduce\<close> only read their array, so a function made of
  them alone is run on the contents of the array it is given.
\<close>

datatype array = Numbers "number list" | Points "PriceData list" | Indicators "TechnicalIndicator list"

type_synonym store = "array list"

fun numbers :: "array \<Rightarrow> number list" where
  "numbers (Numbers xs) = xs"
| "numbers _ = []"

fun points :: "array \<Rightarrow> PriceData list" where
  "points (Points xs) = xs"
| "points _ = []"

fun indicatorsOf :: "array \<Rightarrow> TechnicalIndicator list" where
  "indicatorsOf (Indicators xs) = xs"
| "indicatorsOf _ = []"

definition alloc :: "array \<Rightarrow> store \<Rightarrow> nat \<times> store" where
  "alloc a st = (length st, st @ [a])"

definition push :: "nat \<Rightarrow> TechnicalIndicator \<Rightarrow> store \<Rightarrow> store" where
  "push r x st = st[r := Indicators (indicatorsOf (st ! r) @ [x])]"

definition sort_in_place :: "(number \<Rightarrow> number \<Rightarrow> number) \<Rightarrow> nat \<Rightarrow> store \<Rightarrow> store" where
  "sort_in_place cmp r st = st[r := Numbers (sort_by cmp (numbers (st ! r)))]"

definition calculateSupportResistance_st :: "nat \<Rightarrow> store \<Rightarrow> Levels \<times> store" where
  "calculateSupportResistance_st prices st =
     (let (sorted, st1) = alloc (Numbers (numbers (st ! prices))) st;
          st2 = sort_in_place (\<lambda>a b. a - b) sorted st1;
          lo = elem_at (numbers (st2 ! sorted)) \<lfloor>real (length (numbers (st2 ! sorted))) * (1 / 10)\<rfloor>;
          hi = elem_at (numbers (st2 ! sorted)) \<lfloor>real (length (numbers (st2 ! sorted))) * (9 / 10)\<rfloor>
      in (\<lparr>support = lo, resistance = hi\<rparr>, st2))"

definition generateTradingSignals_st ::
  "runtime \<Rightarrow> string \<Rightarrow> nat \<Rightarrow> store \<Rightarrow> (error + TradingSignal) \<times> store" where
  "generateTradingSignals_st rt symb priceHistory st =
     (if length (points (st ! priceHistory)) < 14 then
        (Inl (Error ''Insufficient price history for technical analysis''), st)
      else
        let cur = Num (price (points (st ! priceHistory) ! (length (points (st ! priceHistory)) - 1)));
            (prices, st1) = alloc (Numbers (map (\<lambda>p. Num (price p)) (points (st ! priceHistory)))) st;
            (volumes, st2) = alloc (Numbers (map (\<lambda>p. Num (volume p)) (points (st1 ! priceHistory)))) st1;
            (inds, st3) = alloc (Indicators []) st2;
            rsi = calculateRSI (numbers (st3 ! prices)) 14;
            st4 = push inds (rsiIndicator rsi) st3;
            sma20 = calculateSMA (numbers (st4 ! prices)) 20;
            sma50 = calculateSMA (numbers (st4 ! prices)) (min 50 (length (numbers (st4 ! prices))));
            st5 = push inds (sma20Indicator cur sma20) st4;
            st6 = push inds (sma50Indicator cur sma50) st5;
            m = calculateMACD (numbers (st6 ! prices));
            st7 = push inds (macdIndicator m) st6;
            volumeTrend = calculateVolumeTrend (numbers (st7 ! volumes));
            st8 = push inds (volumeIndicator volumeTrend) st7;
            (lv, st9) = calculateSupportResistance_st prices st8;
            signalScores = map (\<lambda>i. signalToScore (ind_signal i)) (indicatorsOf (st9 ! inds));
            avgScore = reduce_add signalScores / Num (real (length signalScores));
            overall = scoreToSignal avgScore;
            signalVariance = calculateVariance signalScores;
            conf = Math_max (Num 0) (Math_min (Num 100) (Num 100 - signalVariance * Num 20));
            tr = determineTrend (numbers (st9 ! prices)) sma20 sma50;
            vol = calculateVolatility (numbers (st9 ! prices));
            summ = generateSummary rt symb overall conf tr (indicatorsOf (st9 ! inds))
        in (Inr \<lparr>symbol = toUpperCase symb, currentPrice = cur, overallSignal = overall,
                  confidence = Math_round conf, indicators = indicatorsOf (st9 ! inds),
                  supportLevel = support lv, resistanceLevel = resistance lv,
                  trend = tr, volatility = vol, summary = summ,
                  generatedAt = now_toISOString rt\<rparr>, st9))"

section \<open>Notions of the specification\<close>

text \<open>The error of a history that is too short, under the name the specification gives it.\<close>

definition InsufficientHistory :: error where
  "InsufficientHistory = Error ''Insufficient price history for technical analysis''"

text \<open>
  The quantities of the RSI on reals: the differences of consecutive prices, and the
  average gain and loss over the last \<open>period + 1\<close> prices (a sum over no element is 0).
\<close>

definition deltas :: "real list \<Rightarrow> real list" where
  "deltas w = map (\<lambda>i. w ! Suc i - w ! i) [0..<length w - 1]"

definition rsi_avgGain :: "real list \<Rightarrow> nat \<Rightarrow> real" where
  "rsi_avgGain ps period =
     sum_list (filter (\<lambda>d. 0 < d) (deltas (drop (length ps - (period + 1)) ps))) / real period"

definition rsi_avgLoss :: "real list \<Rightarrow> nat \<Rightarrow> real" where
  "rsi_avgLoss ps period =
     sum_list (map abs (filter (\<lambda>d. d < 0) (deltas (drop (length ps - (period + 1)) ps)))) / real period"

text \<open>Exponential smoothing on reals, from a seed, with factor \<open>k\<close>.\<close>

definition smooth :: "real \<Rightarrow> real \<Rightarrow> real list \<Rightarrow> real" where
  "smooth k seed ps = foldl (\<lambda>e p. p * k + e * (1 - k)) seed ps"

text \<open>
  The EMA of the specification on reals: seeded with the first price of the list, then
  smoothed forward over the others with factor \<open>k = 2 / (period + 1)\<close>; an empty list has
  none.
\<close>

fun ema :: "real list \<Rightarrow> nat \<Rightarrow> real option" where
  "ema [] period = None"
| "ema (p # ps) period = Some (smooth (2 / (real period + 1)) p ps)"

text \<open>Population variance, the clamp, and the integer score of a signal strength.\<close>

definition mean :: "real list \<Rightarrow> real" where
  "mean xs = sum_list xs / real (length xs)"

definition variance :: "real list \<Rightarrow> real" where
  "variance xs = sum_list (map (\<lambda>x. (x - mean xs)\<^sup>2) xs) / real (length xs)"

definition clamp :: "real \<Rightarrow> real \<Rightarrow> real \<Rightarrow> real" where
  "clamp x lo hi = max lo (min hi x)"

fun score :: "SignalStrength \<Rightarrow> int" where
  "score strong_sell = - 2"
| "score sell = - 1"
| "score neutral = 0"
| "score buy = 1"
| "score strong_buy = 2"

section \<open>Sample inputs\<close>

text \<open>
  A runtime and a way to build histories for the closed examples below. The examples do
  not depend on the text the sample \<open>number_toString\<close> gives.
\<close>

definition sample_runtime :: runtime where
  "sample_runtime =
     \<lparr>now_toISOString = ''2025-01-01T00:00:00.000Z'',
      number_toString = (\<lambda>x. case x of Num r \<Rightarrow> ''?'' | PosInf \<Rightarrow> ''Infinity''
                                | NegInf \<Rightarrow> ''-Infinity'' | NaN \<Rightarrow> ''NaN'')\<rparr>"

definition history :: "real list \<Rightarrow> PriceData list" where
  "history ps = map (\<lambda>p. \<lparr>timestamp = 0, price = p, volume = 1000\<rparr>) ps"

text \<open>Two rising series of 60 prices: 1000, 1001, ..., 1059 and 100, 110, ..., 690.\<close>

definition slow_rise :: "real list" where
  "slow_rise = map (\<lambda>i. 1000 + real i) [0..<60]"

definition steep_rise :: "real list" where
  "steep_rise = map (\<lambda>i. 100 + 10 * real i) [0..<60]"

section \<open>The length check\<close>

text \<open>
  C4: the engine fails with the insufficient-history error exactly when the series has
  fewer than 14 points, and returns a report otherwise.
\<close>

theorem C4_length_check:
  "(generateTradingSignals rt symb priceHistory = Inl InsufficientHistory) = (length priceHistory < 14)
   \<and> (\<exists>r. generateTradingSignals rt symb priceHistory = Inr r) = (\<not> length priceHistory < 14)"
  by (simp add: generateTradingSignals_def InsufficientHistory_def Let_def)

theorem C4_length_check_witness:
  "generateTradingSignals sample_runtime ''BTC'' (history (replicate 13 100)) = Inl InsufficientHistory
   \<and> (\<exists>r. generateTradingSignals sample_runtime ''BTC'' (history (replicate 14 100)) = Inr r)"
  using C4_length_check [of sample_runtime "''BTC''" "history (replicate 13 100)"]
        C4_length_check [of sample_runtime "''BTC''" "history (replicate 14 100)"]
  by (simp add: history_def)

section \<open>Numbers, slices and the RSI\<close>

lemma Num_minus [simp]: "Num a - Num b = Num (a - b)"
  by (simp add: minus_number_def)

lemma foldl_add_Num: "foldl (+) (Num a) (map Num xs) = Num (a + sum_list xs)"
  by (induction xs arbitrary: a) (simp_all add: add.assoc)

lemma reduce_add_Num [simp]: "reduce_add (map Num xs) = Num (sum_list xs)"
  by (simp add: reduce_add_def foldl_add_Num)

lemma slice_from_neg: "0 < k \<Longrightarrow> slice_from xs (- int k) = drop (length xs - k) xs"
  by (auto simp add: slice_from_def slice_def Let_def max_def nat_diff_distrib' intro!: arg_cong2[where f=drop])

lemma slice_from_zero [simp]: "slice_from xs 0 = xs"
  by (simp add: slice_from_def slice_def)

lemma slice_from_one [simp]: "slice_from xs 1 = drop 1 xs"
  by (cases xs) (auto simp add: slice_from_def slice_def Let_def min_def)

lemma slice_zero_neg: "0 < k \<Longrightarrow> slice xs 0 (- int k) = take (length xs - k) xs"
  by (auto simp add: slice_def Let_def max_def nat_diff_distrib' intro!: arg_cong2[where f=take])

lemma elem_at_Num: "i < length xs \<Longrightarrow> elem_at (map Num xs) (int i) = Num (xs ! i)"
  by (simp add: elem_at_def)

lemma length_deltas [simp]: "length (deltas w) = length w - 1"
  by (simp add: deltas_def)

lemma changes_Num:
  "slice_from (map_index (\<lambda>p i. if i = 0 then Num 0 else p - elem_at (map Num w) (int i - 1)) (map Num w)) 1
     = map Num (deltas w)"
proof (rule nth_equalityI)
  show "length (slice_from (map_index (\<lambda>p i. if i = 0 then Num 0 else p - elem_at (map Num w) (int i - 1)) (map Num w)) 1)
          = length (map Num (deltas w))"
    by (simp add: map_index_def)
next
  fix i
  assume "i < length (slice_from (map_index (\<lambda>p i. if i = 0 then Num 0 else p - elem_at (map Num w) (int i - 1)) (map Num w)) 1)"
  then have i: "Suc i < length w"
    by (simp add: map_index_def)
  then have "elem_at (map Num w) (int (Suc i) - 1) = Num (w ! i)"
    using elem_at_Num [of i w] by simp
  with i show "slice_from (map_index (\<lambda>p i. if i = 0 then Num 0 else p - elem_at (map Num w) (int i - 1)) (map Num w)) 1 ! i
          = map Num (deltas w) ! i"
    by (simp add: map_index_def deltas_def)
qed

lemma filter_pos_Num: "filter (\<lambda>c. Num 0 < c) (map Num ds) = map Num (filter (\<lambda>d. 0 < d) ds)"
  by (induction ds) simp_all

lemma filter_neg_Num: "filter (\<lambda>c. c < Num 0) (map Num ds) = map Num (filter (\<lambda>d. d < 0) ds)"
  by (induction ds) simp_all

lemma map_abs_Num: "map Math_abs (map Num ds) = map Num (map abs ds)"
  by simp

lemma sum_list_filter_pos_nonneg: "0 \<le> sum_list (filter (\<lambda>d. 0 < d) ds)" for ds :: "real list"
  by (rule sum_list_nonneg) auto

lemma sum_list_abs_nonneg: "0 \<le> sum_list (map abs ds)" for ds :: "real list"
  by (rule sum_list_nonneg) auto

lemma rsi_avgGain_nonneg: "0 \<le> rsi_avgGain ps period"
  by (simp add: rsi_avgGain_def sum_list_filter_pos_nonneg)

lemma rsi_avgLoss_nonneg: "0 \<le> rsi_avgLoss ps period"
  by (simp add: rsi_avgLoss_def sum_list_abs_nonneg)

lemma calculateRSI_Num:
  "calculateRSI (map Num ps) period =
     Num (if length ps < period + 1 then 50
          else if rsi_avgLoss ps period = 0 then 100
          else 100 - 100 / (1 + rsi_avgGain ps period / rsi_avgLoss ps period))"
proof (cases "length ps < period + 1")
  case True
  then show ?thesis by (simp add: calculateRSI_def)
next
  case False
  define w where "w = drop (length ps - (period + 1)) ps"
  have lw: "length w = period + 1"
    using False by (simp add: w_def)
  have arr: "slice_from (map Num ps) (- int period - 1) = map Num w"
  proof -
    have "- int period - 1 = - int (period + 1)" by simp
    then show ?thesis
      using slice_from_neg [of "period + 1" "map Num ps"] by (simp only: w_def drop_map length_map)
  qed
  define G where "G = filter (\<lambda>d. 0 < d) (deltas w)"
  define L where "L = map abs (filter (\<lambda>d. d < 0) (deltas w))"
  have pos: "0 < period" if "G \<noteq> [] \<or> L \<noteq> []"
  proof (rule ccontr)
    assume "\<not> 0 < period"
    then have "length (deltas w) = 0" using lw by simp
    then have "deltas w = []" by (simp only: length_0_conv)
    with that show False by (simp add: G_def L_def)
  qed
  have aG: "(if 0 < length (map Num G) then reduce_add (map Num G) / Num (real period) else Num 0)
              = Num (rsi_avgGain ps period)"
  proof -
    have "rsi_avgGain ps period = sum_list G / real period"
      by (simp add: rsi_avgGain_def G_def w_def)
    then show ?thesis using pos by (cases "G = []") simp_all
  qed
  have aL: "(if 0 < length (map Num L) then reduce_add (map Num L) / Num (real period) else Num 0)
              = Num (rsi_avgLoss ps period)"
  proof -
    have "rsi_avgLoss ps period = sum_list L / real period"
      by (simp add: rsi_avgLoss_def L_def w_def)
    then show ?thesis using pos by (cases "L = []") simp_all
  qed
  have one: "1 + rsi_avgGain ps period / rsi_avgLoss ps period \<noteq> 0"
    using rsi_avgGain_nonneg [of ps period] rsi_avgLoss_nonneg [of ps period]
    by (smt (verit) divide_nonneg_nonneg)
  have "calculateRSI (map Num ps) period =
     (let avgGain = (if 0 < length (map Num G) then reduce_add (map Num G) / Num (real period) else Num 0);
          avgLoss = (if 0 < length (map Num L) then reduce_add (map Num L) / Num (real period) else Num 0)
      in if avgLoss = Num 0 then Num 100
         else let rs = avgGain / avgLoss in Num 100 - Num 100 / (Num 1 + rs))"
    by (simp only: calculateRSI_def arr changes_Num filter_pos_Num filter_neg_Num map_abs_Num
          G_def L_def Let_def length_map False if_False)
  also have "\<dots> = Num (if rsi_avgLoss ps period = 0 then 100
          else 100 - 100 / (1 + rsi_avgGain ps period / rsi_avgLoss ps period))"
    unfolding aG aL using one by (simp add: Let_def)
  finally show ?thesis using False by simp
qed






section \<open>Reports\<close>

subsection \<open>Projections of the report\<close>

lemma report_length:
  assumes "generateTradingSignals rt symb ph = Inr r"
  shows "14 \<le> length ph"
proof (rule ccontr)
  assume "\<not> 14 \<le> length ph"
  then have "generateTradingSignals rt symb ph = Inl InsufficientHistory"
    by (simp add: generateTradingSignals_def InsufficientHistory_def)
  with assms show False by simp
qed

lemma map_Num_price: "map (\<lambda>p. Num (price p)) ph = map Num (map price ph)"
  by simp

lemma map_Num_volume: "map (\<lambda>p. Num (volume p)) ph = map Num (map volume ph)"
  by simp

lemma report_indicators:
  assumes "generateTradingSignals rt symb ph = Inr r"
  shows "indicators r =
           [rsiIndicator (calculateRSI (map Num (map price ph)) 14),
            sma20Indicator (Num (price (ph ! (length ph - 1)))) (calculateSMA (map Num (map price ph)) 20),
            sma50Indicator (Num (price (ph ! (length ph - 1))))
              (calculateSMA (map Num (map price ph)) (min 50 (length ph))),
            macdIndicator (calculateMACD (map Num (map price ph))),
            volumeIndicator (calculateVolumeTrend (map Num (map volume ph)))]"
proof -
  have len: "(length ph < 14) = False"
    using report_length [OF assms] by simp
  note eq = assms [unfolded generateTradingSignals_def Let_def len if_False sum.inject
      map_Num_price map_Num_volume length_map]
  show ?thesis
    by (simp only: eq [symmetric] TradingSignal.select_convs)
qed

lemma report_levels:
  assumes "generateTradingSignals rt symb ph = Inr r"
  shows "supportLevel r = support (calculateSupportResistance (map Num (map price ph)))"
    and "resistanceLevel r = resistance (calculateSupportResistance (map Num (map price ph)))"
proof -
  have len: "(length ph < 14) = False"
    using report_length [OF assms] by simp
  note eq = assms [unfolded generateTradingSignals_def Let_def len if_False sum.inject
      map_Num_price map_Num_volume length_map]
  show "supportLevel r = support (calculateSupportResistance (map Num (map price ph)))"
    by (simp only: eq [symmetric] TradingSignal.select_convs)
  show "resistanceLevel r = resistance (calculateSupportResistance (map Num (map price ph)))"
    by (simp only: eq [symmetric] TradingSignal.select_convs)
qed

lemma report_trend:
  assumes "generateTradingSignals rt symb ph = Inr r"
  shows "trend r = determineTrend (map Num (map price ph)) (calculateSMA (map Num (map price ph)) 20)
            (calculateSMA (map Num (map price ph)) (min 50 (length ph)))"
    and "volatility r = calculateVolatility (map Num (map price ph))"
proof -
  have len: "(length ph < 14) = False"
    using report_length [OF assms] by simp
  note eq = assms [unfolded generateTradingSignals_def Let_def len if_False sum.inject
      map_Num_price map_Num_volume length_map]
  show "trend r = determineTrend (map Num (map price ph)) (calculateSMA (map Num (map price ph)) 20)
            (calculateSMA (map Num (map price ph)) (min 50 (length ph)))"
    by (simp only: eq [symmetric] TradingSignal.select_convs)
  show "volatility r = calculateVolatility (map Num (map price ph))"
    by (simp only: eq [symmetric] TradingSignal.select_convs)
qed

lemma report_confidence:
  assumes "generateTradingSignals rt symb ph = Inr r"
  shows "confidence r =
           Math_round (Math_max (Num 0) (Math_min (Num 100)
             (Num 100 - calculateVariance (map (\<lambda>i. signalToScore (ind_signal i)) (indicators r)) * Num 20)))"
proof -
  have len: "(length ph < 14) = False"
    using report_length [OF assms] by simp
  note eq = assms [unfolded generateTradingSignals_def Let_def len if_False sum.inject]
  show ?thesis
    by (simp only: eq [symmetric] TradingSignal.select_convs)
qed

lemma report_clock:
  assumes "generateTradingSignals rt symb ph = Inr r"
  shows "generatedAt r = now_toISOString rt"
proof -
  have len: "(length ph < 14) = False"
    using report_length [OF assms] by simp
  note eq = assms [unfolded generateTradingSignals_def Let_def len if_False sum.inject]
  show ?thesis
    by (simp only: eq [symmetric] TradingSignal.select_convs)
qed

subsection \<open>Moving averages and the MACD on finite prices\<close>

lemma ema_loop_Num: "ema_loop (Num k) (Num e) (map Num ps) = Num (smooth k e ps)"
  by (induction ps arbitrary: e) (simp_all add: smooth_def)

lemma calculateEMA_Num:
  "calculateEMA (map Num (p # ps)) period = Num (smooth (2 / (real period + 1)) p ps)"
proof -
  have "real period + 1 \<noteq> 0" by (simp add: add_nonneg_eq_0_iff)
  then have "Num 2 / (Num (real period) + Num 1) = Num (2 / (real period + 1))" by simp
  moreover have "elem_at (map Num (p # ps)) 0 = Num p" by (simp add: elem_at_def)
  ultimately show ?thesis
    using ema_loop_Num [of "2 / (real period + 1)" p ps]
    by (simp add: calculateEMA_def Let_def)
qed

lemma calculateEMA_finite:
  assumes "ps \<noteq> []"
  shows "\<exists>e. calculateEMA (map Num ps) period = Num e"
proof -
  obtain q qs where "ps = q # qs" using assms by (cases ps) auto
  then show ?thesis using calculateEMA_Num [of q qs period] by auto
qed

lemma calculateMACD_parts:
  "macd (calculateMACD prices) = calculateEMA prices 12 - calculateEMA prices 26"
  "signal (calculateMACD prices)
     = calculateEMA (take (length prices - 9) prices @ [macd (calculateMACD prices)]) 9"
  "histogram (calculateMACD prices) = macd (calculateMACD prices) - signal (calculateMACD prices)"
  using slice_zero_neg [of 9 prices] by (simp_all add: calculateMACD_def Let_def)

lemma calculateMACD_finite:
  assumes "ps \<noteq> []"
  shows "\<exists>a b. macd (calculateMACD (map Num ps)) = Num a \<and> signal (calculateMACD (map Num ps)) = Num b
               \<and> histogram (calculateMACD (map Num ps)) = Num (a - b)"
proof -
  obtain e12 where e12: "calculateEMA (map Num ps) 12 = Num e12"
    using calculateEMA_finite [OF assms] by blast
  obtain e26 where e26: "calculateEMA (map Num ps) 26 = Num e26"
    using calculateEMA_finite [OF assms] by blast
  have m: "macd (calculateMACD (map Num ps)) = Num (e12 - e26)"
    by (simp add: calculateMACD_parts(1) e12 e26)
  have "take (length (map Num ps) - 9) (map Num ps) @ [Num (e12 - e26)]
          = map Num (take (length ps - 9) ps @ [e12 - e26])"
    by (simp add: take_map)
  moreover have "take (length ps - 9) ps @ [e12 - e26] \<noteq> []" by simp
  ultimately obtain b where "signal (calculateMACD (map Num ps)) = Num b"
    using calculateEMA_finite [of "take (length ps - 9) ps @ [e12 - e26]" 9]
    by (simp only: calculateMACD_parts(2) m) blast
  then show ?thesis
    using m by (simp add: calculateMACD_parts(3))
qed

lemma calculateEMA_ema:
  assumes "ema ps period = Some e"
  shows "calculateEMA (map Num ps) period = Num e"
proof (cases ps)
  case Nil
  with assms show ?thesis by simp
next
  case (Cons q qs)
  with assms show ?thesis by (simp add: calculateEMA_Num del: list.map)
qed

lemma calculateMACD_empty: "calculateMACD [] = \<lparr>macd = NaN, signal = NaN, histogram = NaN\<rparr>"
  by (simp add: calculateMACD_def calculateEMA_def elem_at_def slice_def minus_number_def Let_def)

lemma calculateMACD_ema:
  assumes e12: "ema ps 12 = Some e12"
    and e26: "ema ps 26 = Some e26"
    and s: "ema (take (length ps - 9) ps @ [e12 - e26]) 9 = Some s"
  shows "calculateMACD (map Num ps)
           = \<lparr>macd = Num (e12 - e26), signal = Num s, histogram = Num (e12 - e26 - s)\<rparr>"
proof -
  have m: "calculateEMA (map Num ps) 12 - calculateEMA (map Num ps) 26 = Num (e12 - e26)"
    by (simp add: calculateEMA_ema [OF e12] calculateEMA_ema [OF e26])
  have "slice (map Num ps) 0 (- 9) @ [Num (e12 - e26)]
          = map Num (take (length ps - 9) ps @ [e12 - e26])"
    using slice_zero_neg [of 9 "map Num ps"] by (simp add: take_map)
  then have sig: "calculateEMA (slice (map Num ps) 0 (- 9) @ [Num (e12 - e26)]) 9 = Num s"
    by (simp only: calculateEMA_ema [OF s])
  show ?thesis
    unfolding calculateMACD_def Let_def m sig by simp
qed

text \<open>
  C6: on a list of finite prices the MACD line is the difference of the 12- and 26-period
  EMA of the prices, the signal line is the 9-period EMA of all but the last 9 prices
  followed by the MACD value, and the histogram is their difference, where the EMA is
  seeded with the first element and smoothed with factor \<open>2 / (period + 1)\<close>. The EMA has a
  value exactly on the non-empty lists; on the empty list the three numbers are \<open>NaN\<close>. On
  every array of numbers the three fields are composed in the same way.
\<close>

theorem C6_macd_triple:
  "(ema ps 12 = Some e12 \<and> ema ps 26 = Some e26
      \<and> ema (take (length ps - 9) ps @ [e12 - e26]) 9 = Some s
     \<longrightarrow> calculateMACD (map Num ps)
           = \<lparr>macd = Num (e12 - e26), signal = Num s, histogram = Num (e12 - e26 - s)\<rparr>)
   \<and> (ema ps period = None) = (ps = [])
   \<and> calculateMACD [] = \<lparr>macd = NaN, signal = NaN, histogram = NaN\<rparr>
   \<and> macd (calculateMACD prices) = calculateEMA prices 12 - calculateEMA prices 26
   \<and> signal (calculateMACD prices)
       = calculateEMA (take (length prices - 9) prices @ [macd (calculateMACD prices)]) 9
   \<and> histogram (calculateMACD prices) = macd (calculateMACD prices) - signal (calculateMACD prices)"
proof -
  have "(ema ps period = None) = (ps = [])"
    by (cases ps) simp_all
  then show ?thesis
    using calculateMACD_ema [of ps e12 e26 s] calculateMACD_empty calculateMACD_parts [of prices]
    by blast
qed

theorem C6_macd_triple_witness:
  "calculateMACD (map Num [1, 2, 3, 4, 5, 6, 7, 8, 9, 10, 11])
     = \<lparr>macd = Num (63718329401903474975871964 / 28383840955651551463016001),
        signal = Num (999803829945154609991743844 / 709596023891288786575400025),
        histogram = Num (593154405102432264405055256 / 709596023891288786575400025)\<rparr>"
  using C6_macd_triple [of "[1, 2, 3, 4, 5, 6, 7, 8, 9, 10, 11]"
      "smooth (2 / (real 12 + 1)) 1 [2, 3, 4, 5, 6, 7, 8, 9, 10, 11]"
      "smooth (2 / (real 26 + 1)) 1 [2, 3, 4, 5, 6, 7, 8, 9, 10, 11]"
      "smooth (2 / (real 9 + 1)) 1
         [2, smooth (2 / (real 12 + 1)) 1 [2, 3, 4, 5, 6, 7, 8, 9, 10, 11]
               - smooth (2 / (real 26 + 1)) 1 [2, 3, 4, 5, 6, 7, 8, 9, 10, 11]]"]
  by (simp add: smooth_def)

lemma less_minus_number: "(Num 0 < a - b) = (b < a)" "(a - b < Num 0) = (a < b)" for a b :: number
  by (cases a; cases b; simp add: minus_number_def)+

text \<open>
  C10: in the MACD classifier the two conjuncts of each test say the same, and on a
  non-empty series the MACD signal is neutral exactly when the histogram is 0.
\<close>

theorem C10_macd_classifier:
  "(Num 0 < histogram (calculateMACD prices))
      = (signal (calculateMACD prices) < macd (calculateMACD prices))
   \<and> (histogram (calculateMACD prices) < Num 0)
      = (macd (calculateMACD prices) < signal (calculateMACD prices))
   \<and> (ps \<noteq> [] \<longrightarrow>
        (macdToSignal (calculateMACD (map Num ps)) = neutral)
          = (histogram (calculateMACD (map Num ps)) = Num 0))"
proof -
  have "(macdToSignal (calculateMACD (map Num ps)) = neutral)
          = (histogram (calculateMACD (map Num ps)) = Num 0)" if ne: "ps \<noteq> []"
  proof -
    obtain a b where "macd (calculateMACD (map Num ps)) = Num a"
      "signal (calculateMACD (map Num ps)) = Num b"
      "histogram (calculateMACD (map Num ps)) = Num (a - b)"
      using calculateMACD_finite [OF ne] by blast
    then show ?thesis by (auto simp add: macdToSignal_def)
  qed
  then show ?thesis
    by (simp add: calculateMACD_parts(3) less_minus_number)
qed


theorem C10_macd_classifier_witness:
  "macdToSignal (calculateMACD (map Num [10, 10, 10])) = neutral
   \<and> histogram (calculateMACD (map Num [10, 10, 10])) = Num 0
   \<and> macdToSignal (calculateMACD (map Num (replicate 11 10))) = strong_sell
   \<and> histogram (calculateMACD (map Num (replicate 11 10))) = Num (- 8)"
  using C10_macd_classifier [of "map Num [10, 10, 10]" "[10, 10, 10]"]
        C10_macd_classifier [of "map Num (replicate 11 10)" "replicate 11 10"]
  by (simp add: calculateMACD_def calculateEMA_def Let_def slice_def elem_at_def macdToSignal_def
        numeral_eq_Suc)

subsection \<open>Variance and confidence\<close>

lemma Math_pow_Num: "Math_pow (Num a) n = Num (a ^ n)"
  by (induction n) simp_all

lemma foldl_squares_Num:
  "foldl (\<lambda>sum v. sum + Math_pow (v - Num m) 2) (Num a) (map Num xs)
     = Num (a + sum_list (map (\<lambda>x. (x - m)\<^sup>2) xs))"
  by (induction xs arbitrary: a) (simp_all add: Math_pow_Num add.assoc)

lemma calculateVariance_Num:
  assumes "xs \<noteq> []"
  shows "calculateVariance (map Num xs) = Num (variance xs)"
proof -
  have n: "real (length xs) \<noteq> 0" using assms by simp
  then have m: "reduce_add (map Num xs) / Num (real (length (map Num xs))) = Num (mean xs)"
    by (simp add: mean_def)
  show ?thesis
    unfolding calculateVariance_def Let_def m foldl_squares_Num
    using n by (simp add: variance_def)
qed

lemma signalToScore_score: "signalToScore s = Num (real_of_int (score s))"
  by (cases s) simp_all

text \<open>
  C7: the confidence of a report is the clamp of 100 minus 20 times the variance of the
  indicator scores, rounded to the nearest integer; it is an integer between 0 and 100.
\<close>

theorem C7_confidence:
  assumes "generateTradingSignals rt symb priceHistory = Inr r"
  shows "confidence r =
           Num (of_int (round (clamp
             (100 - variance (map (\<lambda>i. real_of_int (score (ind_signal i))) (indicators r)) * 20) 0 100)))
         \<and> (\<exists>n::int. confidence r = Num (of_int n) \<and> 0 \<le> n \<and> n \<le> 100)"
proof -
  define xs where "xs = map (\<lambda>i. real_of_int (score (ind_signal i))) (indicators r)"
  define v where "v = clamp (100 - variance xs * 20) 0 100"
  have "indicators r \<noteq> []"
    using report_indicators [OF assms] by simp
  then have ne: "xs \<noteq> []" by (simp add: xs_def)
  have "map (\<lambda>i. signalToScore (ind_signal i)) (indicators r) = map Num xs"
    by (simp add: xs_def signalToScore_score)
  then have "confidence r =
      Math_round (Math_max (Num 0) (Math_min (Num 100) (Num 100 - Num (variance xs) * Num 20)))"
    using report_confidence [OF assms] calculateVariance_Num [OF ne] by simp
  also have "\<dots> = Num (of_int (round v))"
    by (simp add: v_def clamp_def round_def max_def min_def)
  finally have c: "confidence r = Num (of_int (round v))" .
  have "0 \<le> v" "v \<le> 100"
    by (simp_all add: v_def clamp_def)
  then have "0 \<le> round v" "round v \<le> 100"
    by (simp_all add: round_def)
  with c show ?thesis
    unfolding v_def xs_def by blast
qed

subsection \<open>Support and resistance\<close>

lemma insert_by_Num:
  "insert_by (\<lambda>a b. a - b) (Num x) (map Num ys) = map Num (insort x ys)"
  by (induction ys) auto

lemma sort_by_Num: "sort_by (\<lambda>a b. a - b) (map Num xs) = map Num (sort xs)"
  by (induction xs) (simp_all add: sort_by_def insert_by_Num)

lemma floor_fraction_less:
  assumes "0 < n" "0 \<le> q" "q < 1"
  shows "0 \<le> \<lfloor>real n * q\<rfloor>" "nat \<lfloor>real n * q\<rfloor> < n"
proof -
  show "0 \<le> \<lfloor>real n * q\<rfloor>" using assms by simp
  have "real n * q < real n" using assms by simp
  then have "\<lfloor>real n * q\<rfloor> < int n" by linarith
  then show "nat \<lfloor>real n * q\<rfloor> < n" using assms by linarith
qed

lemma calculateSupportResistance_Num:
  assumes "ps \<noteq> []"
  shows "support (calculateSupportResistance (map Num ps))
           = Num (sort ps ! nat \<lfloor>real (length ps) * (1 / 10)\<rfloor>)"
    and "resistance (calculateSupportResistance (map Num ps))
           = Num (sort ps ! nat \<lfloor>real (length ps) * (9 / 10)\<rfloor>)"
proof -
  have n: "0 < length ps" using assms by simp
  have at: "elem_at (map Num (sort ps)) \<lfloor>real (length ps) * q\<rfloor>
              = Num (sort ps ! nat \<lfloor>real (length ps) * q\<rfloor>)" if "0 \<le> q" "q < 1" for q
    using floor_fraction_less [OF n that] elem_at_Num [of "nat \<lfloor>real (length ps) * q\<rfloor>" "sort ps"]
    by simp
  show "support (calculateSupportResistance (map Num ps))
           = Num (sort ps ! nat \<lfloor>real (length ps) * (1 / 10)\<rfloor>)"
    using at [of "1 / 10"] by (simp add: calculateSupportResistance_def Let_def sort_by_Num)
  show "resistance (calculateSupportResistance (map Num ps))
           = Num (sort ps ! nat \<lfloor>real (length ps) * (9 / 10)\<rfloor>)"
    using at [of "9 / 10"] by (simp add: calculateSupportResistance_def Let_def sort_by_Num)
qed

text \<open>
  C8: the support level of a report is the element at index \<open>floor (0.1 n)\<close> of the \<open>n\<close>
  prices sorted in ascending order, the resistance level the one at index \<open>floor (0.9 n)\<close>.
\<close>

theorem C8_support_resistance:
  assumes "generateTradingSignals rt symb priceHistory = Inr r"
  shows "supportLevel r
           = Num (sort (map price priceHistory) ! nat \<lfloor>0.1 * real (length priceHistory)\<rfloor>)
         \<and> resistanceLevel r
           = Num (sort (map price priceHistory) ! nat \<lfloor>0.9 * real (length priceHistory)\<rfloor>)"
proof -
  have "map price priceHistory \<noteq> []"
    using report_length [OF assms] by auto
  then show ?thesis
    using calculateSupportResistance_Num [of "map price priceHistory"] report_levels [OF assms]
    by (simp add: mult.commute)
qed

subsection \<open>Flat series\<close>

lemma report_exists:
  assumes "14 \<le> length ph"
  shows "\<exists>r. generateTradingSignals rt symb ph = Inr r"
  using assms by (simp add: generateTradingSignals_def Let_def)

lemma calculateSMA_Num:
  assumes "ps \<noteq> []"
  shows "calculateSMA (map Num ps) k
           = Num (sum_list (if k = 0 then ps else drop (length ps - k) ps)
                    / real (length (if k = 0 then ps else drop (length ps - k) ps)))"
proof (cases "k = 0")
  case True
  then show ?thesis using assms by (simp add: calculateSMA_def Let_def)
next
  case False
  then have "slice_from (map Num ps) (- int k) = map Num (drop (length ps - k) ps)"
    using slice_from_neg [of k "map Num ps"] by (simp add: drop_map)
  moreover have "length ps - (length ps - k) \<noteq> 0" using assms False by (cases ps) auto
  ultimately show ?thesis using False by (simp add: calculateSMA_def Let_def)
qed

lemma calculateSMA_flat:
  assumes "0 < n"
  shows "calculateSMA (map Num (replicate n c)) k = Num c"
proof -
  have ne: "replicate n c \<noteq> []" using assms by auto
  have "(if k = 0 then replicate n c else drop (length (replicate n c) - k) (replicate n c))
          = replicate (if k = 0 then n else n - (n - k)) c"
    by simp
  moreover have "(if k = 0 then n else n - (n - k)) \<noteq> 0" using assms by auto
  ultimately show ?thesis
    unfolding calculateSMA_Num [OF ne] by (simp add: sum_list_replicate)
qed

lemma deltas_flat: "deltas (replicate m c) = replicate (m - 1) 0"
proof -
  have "deltas (replicate m c) = map (\<lambda>i. 0) [0..<m - 1]"
    unfolding deltas_def by (rule map_cong) (auto simp add: less_diff_conv)
  then show ?thesis by (simp add: map_replicate_const)
qed

lemma calculateRSI_flat:
  "calculateRSI (map Num (replicate n c)) period = Num (if n < period + 1 then 50 else 100)"
proof -
  have "rsi_avgLoss (replicate n c) period = 0"
    by (simp add: rsi_avgLoss_def deltas_flat)
  then show ?thesis
    by (simp add: calculateRSI_Num del: map_replicate)
qed

lemma smooth_flat: "smooth k c (replicate j c) = c"
  by (induction j) (simp_all add: smooth_def algebra_simps)

lemma smooth_append: "smooth k e (xs @ ys) = smooth k (smooth k e xs) ys"
  by (simp add: smooth_def)

lemma calculateEMA_flat:
  assumes "0 < n"
  shows "calculateEMA (map Num (replicate n c)) period = Num c"
proof -
  obtain j where "n = Suc j" using assms by (cases n) auto
  then show ?thesis using calculateEMA_Num [of c "replicate j c" period] by (simp add: smooth_flat)
qed

lemma calculateMACD_flat:
  assumes "10 \<le> n"
  shows "macd (calculateMACD (map Num (replicate n c))) = Num 0"
    and "signal (calculateMACD (map Num (replicate n c))) = Num (4 / 5 * c)"
    and "histogram (calculateMACD (map Num (replicate n c))) = Num (- (4 / 5 * c))"
proof -
  have n: "0 < n" using assms by simp
  show m: "macd (calculateMACD (map Num (replicate n c))) = Num 0"
    by (simp add: calculateMACD_parts(1) calculateEMA_flat [OF n] del: map_replicate)
  obtain j where j: "n - 9 = Suc j" using assms by (cases "n - 9") auto
  have "min (n - 9) n = Suc j" using j by simp
  then have "take (n - 9) (replicate n c) = c # replicate j c"
    by simp
  then have "take (length (map Num (replicate n c)) - 9) (map Num (replicate n c)) @ [Num 0]
          = map Num (c # (replicate j c @ [0]))"
    by (simp add: take_map del: map_replicate take_replicate)
  then have "signal (calculateMACD (map Num (replicate n c)))
          = Num (smooth (2 / (real 9 + 1)) c (replicate j c @ [0]))"
    by (simp only: calculateMACD_parts(2) m calculateEMA_Num)
  then show s: "signal (calculateMACD (map Num (replicate n c))) = Num (4 / 5 * c)"
    by (simp add: smooth_append smooth_flat) (simp add: smooth_def)
  show "histogram (calculateMACD (map Num (replicate n c))) = Num (- (4 / 5 * c))"
    by (simp only: calculateMACD_parts(3) m s) simp
qed

lemma variance_zeros: "variance (replicate m 0) = 0"
  by (simp add: variance_def mean_def sum_list_replicate map_replicate_const)

lemma calculateVolatility_flat:
  assumes "2 \<le> n" "c \<noteq> 0"
  shows "calculateVolatility (map Num (replicate n c)) = low"
proof -
  have "map_index (\<lambda>p i. (p - elem_at (map Num (replicate n c)) (int i)) / elem_at (map Num (replicate n c)) (int i))
          (slice_from (map Num (replicate n c)) 1) = map (\<lambda>i. Num 0) [0..<n - 1]"
    unfolding map_index_def using assms
    by (auto simp add: elem_at_def drop_map simp del: replicate_Suc intro!: map_cong)
  then have "map_index (\<lambda>p i. (p - elem_at (map Num (replicate n c)) (int i)) / elem_at (map Num (replicate n c)) (int i))
          (slice_from (map Num (replicate n c)) 1) = map Num (replicate (n - 1) 0)"
    by (simp add: map_replicate_const)
  note eq = this
  have ne: "replicate (n - 1) (0::real) \<noteq> []" using assms by auto
  show ?thesis
    unfolding calculateVolatility_def Let_def eq calculateVariance_Num [OF ne] variance_zeros
    by simp
qed

lemma slice_neg_neg:
  assumes "0 < b" "b \<le> a" "a \<le> length xs"
  shows "slice xs (- int a) (- int b) = take (a - b) (drop (length xs - a) xs)"
proof -
  have "nat (int (length xs) - int b - (int (length xs) - int a)) = a - b"
    using assms by simp
  moreover have "nat (int (length xs) - int a) = length xs - a"
    using assms by simp
  ultimately show ?thesis
    using assms by (simp add: slice_def Let_def max_def)
qed

lemma calculateVolumeTrend_flat: "calculateVolumeTrend (map Num (replicate n v)) = Num 0"
proof (cases "n < 10")
  case True
  then show ?thesis by (simp add: calculateVolumeTrend_def)
next
  case False
  have r: "slice_from (map Num (replicate n v)) (- 5) = map Num (replicate 5 v)"
    using False slice_from_neg [of 5 "map Num (replicate n v)"] by (simp add: drop_map)
  have "slice (map Num (replicate n v)) (- int 10) (- int 5) = map Num (replicate 5 v)"
    using False by (subst slice_neg_neg) (simp_all add: drop_map take_map del: map_replicate)
  then have "slice (map Num (replicate n v)) (- 10) (- 5) = map Num (replicate 5 v)"
    by simp
  with r False show ?thesis
    by (simp add: calculateVolumeTrend_def Let_def sum_list_replicate del: map_replicate)
qed

lemma history_prices [simp]: "map price (history ps) = ps"
  by (simp add: history_def comp_def)

lemma history_volumes [simp]: "map volume (history ps) = replicate (length ps) 1000"
  by (simp add: history_def comp_def map_replicate_const)

lemma history_length [simp]: "length (history ps) = length ps"
  by (simp add: history_def)

lemma history_nth [simp]: "i < length ps \<Longrightarrow> price (history ps ! i) = ps ! i"
  by (simp add: history_def)

lemma map_constant:
  assumes "\<forall>p \<in> set xs. f p = c"
  shows "map f xs = replicate (length xs) c"
  using assms by (induction xs) simp_all

lemma flat_report:
  assumes r: "generateTradingSignals rt symb ph = Inr r"
    and flat: "map price ph = replicate (length ph) c"
    and c: "c \<noteq> 0"
  shows "ind_value (indicators r ! 0) = Num (if length ph < 15 then 50 else 100)"
    and "volatility r = low"
    and "ind_value (indicators r ! 3) = Num (- (4 / 5 * c))"
proof -
  have n: "14 \<le> length ph" by (rule report_length [OF r])
  show "ind_value (indicators r ! 0) = Num (if length ph < 15 then 50 else 100)"
    unfolding report_indicators [OF r] flat
    by (simp add: rsiIndicator_def calculateRSI_flat del: map_replicate)
  show "volatility r = low"
    unfolding report_trend(2) [OF r] flat
    using n c by (intro calculateVolatility_flat) simp_all
  have "10 \<le> length ph" using n by simp
  then show "ind_value (indicators r ! 3) = Num (- (4 / 5 * c))"
    unfolding report_indicators [OF r] flat
    by (simp add: macdIndicator_def calculateMACD_flat(3) del: map_replicate)
qed

text \<open>
  C1, as the code has it: on a flat series of a nonzero price the RSI is 50 for 14 points
  and 100 for more, the volatility is low, and the MACD histogram is minus four fifths of
  the price.
\<close>

theorem C1_flat_series:
  assumes "generateTradingSignals rt symb priceHistory = Inr r"
    and "\<forall>p \<in> set priceHistory. price p = c"
    and "c \<noteq> 0"
  shows "ind_value (indicators r ! 0) = Num (if length priceHistory = 14 then 50 else 100)
         \<and> volatility r = low
         \<and> ind_value (indicators r ! 3) = Num (- (4 / 5 * c))"
proof -
  have "map price priceHistory = replicate (length priceHistory) c"
    using assms(2) by (rule map_constant)
  moreover have "(length priceHistory < 15) = (length priceHistory = 14)"
    using report_length [OF assms(1)] by auto
  ultimately show ?thesis
    using flat_report [OF assms(1) _ assms(3)] by simp
qed

theorem C1_flat_series_witness:
  "\<exists>r. generateTradingSignals sample_runtime ''BTC'' (history (replicate 14 100)) = Inr r
       \<and> ind_value (indicators r ! 0) = Num 50 \<and> volatility r = low
       \<and> ind_value (indicators r ! 3) = Num (- 80)"
proof -
  obtain r where r: "generateTradingSignals sample_runtime ''BTC'' (history (replicate 14 100)) = Inr r"
    using report_exists [of "history (replicate 14 100)" sample_runtime "''BTC''"] by auto
  have "\<forall>p \<in> set (history (replicate 14 100)). price p = 100"
    by (simp add: history_def)
  from C1_flat_series [OF r this] r show ?thesis by simp
qed

text \<open>
  The claim as stated fails on fifteen points of price 100: the RSI is 100, not 50, and the
  MACD histogram is -80, not 0.
\<close>

theorem C1_flat_series_counterexample:
  "\<not> isl (generateTradingSignals sample_runtime ''BTC'' (history (replicate 15 100)))
   \<and> ind_value (indicators (projr (generateTradingSignals sample_runtime ''BTC''
         (history (replicate 15 100)))) ! 0) = Num 100
   \<and> ind_value (indicators (projr (generateTradingSignals sample_runtime ''BTC''
         (history (replicate 15 100)))) ! 3) = Num (- 80)"
proof -
  obtain r where r: "generateTradingSignals sample_runtime ''BTC'' (history (replicate 15 100)) = Inr r"
    using report_exists [of "history (replicate 15 100)" sample_runtime "''BTC''"] by auto
  have "map price (history (replicate 15 100)) = replicate (length (history (replicate 15 100))) 100"
    by simp
  from flat_report [OF r this] show ?thesis
    unfolding r by simp
qed

subsection \<open>A flat history of 14 points\<close>

lemma flat_signals:
  assumes r: "generateTradingSignals rt symb (history (replicate 14 100)) = Inr r"
  shows "map ind_signal (indicators r) = [neutral, sell, sell, strong_sell, neutral]"
proof -
  have "macdToSignal (calculateMACD (map Num (replicate 14 100))) = strong_sell"
    using calculateMACD_flat [of 14 100] by (simp add: macdToSignal_def del: map_replicate)
  moreover have "calculateVolumeTrend (map Num (replicate 14 1000)) = Num 0"
    by (rule calculateVolumeTrend_flat)
  moreover have "calculateSMA (map Num (replicate 14 100)) k = Num 100" for k
    by (rule calculateSMA_flat) simp
  moreover have "calculateRSI (map Num (replicate 14 100)) 14 = Num 50"
    by (simp add: calculateRSI_flat del: map_replicate)
  ultimately show ?thesis
    unfolding report_indicators [OF r]
    by (simp add: rsiIndicator_def sma20Indicator_def sma50Indicator_def macdIndicator_def
          volumeIndicator_def rsiToSignal_def del: map_replicate)
qed

theorem C7_confidence_witness:
  "\<exists>r. generateTradingSignals sample_runtime ''BTC'' (history (replicate 14 100)) = Inr r
       \<and> confidence r = Num 89"
proof -
  obtain r where r: "generateTradingSignals sample_runtime ''BTC'' (history (replicate 14 100)) = Inr r"
    using report_exists [of "history (replicate 14 100)" sample_runtime "''BTC''"] by auto
  have "map (\<lambda>i. real_of_int (score (ind_signal i))) (indicators r)
          = map (\<lambda>s. real_of_int (score s)) (map ind_signal (indicators r))"
    by (simp add: comp_def)
  also have "\<dots> = [0, - 1, - 1, - 2, 0]"
    by (simp add: flat_signals [OF r])
  finally have scores: "map (\<lambda>i. real_of_int (score (ind_signal i))) (indicators r)
          = [0, - 1, - 1, - 2, 0]" .
  have v: "variance [0, - 1, - 1, - 2, 0] = 14 / 25"
    by (simp add: variance_def mean_def power2_eq_square)
  have "round (clamp (100 - variance [0, - 1, - 1, - 2, 0] * 20) 0 100) = 89"
    unfolding v by (simp add: clamp_def round_def)
  then have "confidence r = Num 89"
    using C7_confidence [OF r] unfolding scores by simp
  with r show ?thesis by blast
qed

theorem C8_support_resistance_witness:
  "\<exists>r. generateTradingSignals sample_runtime ''ETH''
          (history [100, 102, 101, 103, 105, 104, 106, 108, 107, 109, 111, 110, 112, 114]) = Inr r
       \<and> supportLevel r = Num 101 \<and> resistanceLevel r = Num 112"
proof -
  obtain r where r: "generateTradingSignals sample_runtime ''ETH''
      (history [100, 102, 101, 103, 105, 104, 106, 108, 107, 109, 111, 110, 112, 114]) = Inr r"
    using report_exists [of "history [100, 102, 101, 103, 105, 104, 106, 108, 107, 109, 111, 110, 112, 114]"
        sample_runtime "''ETH''"] by auto
  from C8_support_resistance [OF r] r show ?thesis by simp
qed

subsection \<open>The clock\<close>

lemma generateSummary_runtime:
  assumes "number_toString rt2 = number_toString rt1"
  shows "generateSummary rt2 = generateSummary rt1"
  using assms by (intro ext) (simp add: generateSummary_def)

text \<open>
  C2, as the code has it: two runs on the same series give reports that agree in every
  field but \<open>generatedAt\<close>, which holds the reading of the clock at each run.
\<close>

theorem C2_same_report_up_to_clock:
  assumes "generateTradingSignals rt1 symb priceHistory = Inr r1"
    and "number_toString rt2 = number_toString rt1"
  shows "generateTradingSignals rt2 symb priceHistory = Inr (r1\<lparr>generatedAt := now_toISOString rt2\<rparr>)"
proof -
  have len: "(length priceHistory < 14) = False"
    using report_length [OF assms(1)] by simp
  note eq = assms(1) [unfolded generateTradingSignals_def Let_def len if_False sum.inject]
  show ?thesis
    unfolding generateTradingSignals_def Let_def len if_False sum.inject
      generateSummary_runtime [OF assms(2)]
    by (simp only: eq [symmetric] TradingSignal.update_convs)
qed

theorem C2_same_report_up_to_clock_witness:
  "\<exists>r. generateTradingSignals sample_runtime ''BTC'' (history (replicate 14 100)) = Inr r
       \<and> generateTradingSignals (sample_runtime\<lparr>now_toISOString := ''2025-01-01T00:00:01.000Z''\<rparr>)
            ''BTC'' (history (replicate 14 100))
           = Inr (r\<lparr>generatedAt := ''2025-01-01T00:00:01.000Z''\<rparr>)"
proof -
  obtain r where r: "generateTradingSignals sample_runtime ''BTC'' (history (replicate 14 100)) = Inr r"
    using report_exists [of "history (replicate 14 100)" sample_runtime "''BTC''"] by auto
  from C2_same_report_up_to_clock [OF r, of "sample_runtime\<lparr>now_toISOString := ''2025-01-01T00:00:01.000Z''\<rparr>"]
    r show ?thesis by simp
qed

text \<open>
  The claim as stated fails: the same series analysed at two readings of the clock gives
  two different reports.
\<close>

theorem C2_same_report_up_to_clock_counterexample:
  "generateTradingSignals (sample_runtime\<lparr>now_toISOString := ''2025-01-01T00:00:00.000Z''\<rparr>)
      ''BTC'' (history (replicate 14 100))
   \<noteq> generateTradingSignals (sample_runtime\<lparr>now_toISOString := ''2025-01-01T00:00:01.000Z''\<rparr>)
      ''BTC'' (history (replicate 14 100))"
proof
  let ?rt1 = "sample_runtime\<lparr>now_toISOString := ''2025-01-01T00:00:00.000Z''\<rparr>"
  let ?rt2 = "sample_runtime\<lparr>now_toISOString := ''2025-01-01T00:00:01.000Z''\<rparr>"
  assume same: "generateTradingSignals ?rt1 ''BTC'' (history (replicate 14 100))
      = generateTradingSignals ?rt2 ''BTC'' (history (replicate 14 100))"
  obtain r where r: "generateTradingSignals ?rt1 ''BTC'' (history (replicate 14 100)) = Inr r"
    using report_exists [of "history (replicate 14 100)" ?rt1 "''BTC''"] by auto
  have "generatedAt r = ''2025-01-01T00:00:00.000Z''"
    using report_clock [OF r] by simp
  moreover have "generatedAt r = ''2025-01-01T00:00:01.000Z''"
    using report_clock [OF r [unfolded same]] by simp
  ultimately show False by simp
qed

subsection \<open>Rising series\<close>

lemma deltas_increasing:
  assumes "sorted_wrt (<) w"
  shows "filter (\<lambda>d. d < 0) (deltas w) = []"
proof -
  have "\<not> w ! Suc i - w ! i < 0" if "i < length w - 1" for i
  proof -
    have "Suc i < length w" using that by simp
    then have "w ! i < w ! Suc i"
      using sorted_wrt_nth_less [OF assms, of i "Suc i"] by simp
    then show ?thesis by simp
  qed
  then show ?thesis
    by (auto simp add: deltas_def filter_empty_conv)
qed

lemma calculateRSI_increasing:
  assumes "sorted_wrt (<) ps" "period + 1 \<le> length ps"
  shows "calculateRSI (map Num ps) period = Num 100"
proof -
  have "sorted_wrt (<) (drop (length ps - (period + 1)) ps)"
    using assms(1) by (rule sorted_wrt_drop)
  then have "rsi_avgLoss ps period = 0"
    by (simp add: rsi_avgLoss_def deltas_increasing)
  then show ?thesis
    using assms(2) by (simp add: calculateRSI_Num)
qed

lemma sum_list_less_bound:
  fixes xs :: "real list"
  assumes "xs \<noteq> []" "\<forall>x \<in> set xs. x < l"
  shows "sum_list xs < real (length xs) * l"
  using assms
proof (induction xs)
  case Nil
  then show ?case by simp
next
  case (Cons x xs)
  show ?case
  proof (cases "xs = []")
    case True
    then show ?thesis using Cons.prems by simp
  next
    case False
    then have "sum_list xs < real (length xs) * l"
      using Cons by simp
    moreover have "x < l" using Cons.prems by simp
    ultimately show ?thesis by (simp add: algebra_simps)
  qed
qed

lemma sum_list_ge_bound:
  fixes xs :: "real list"
  assumes "\<forall>x \<in> set xs. l \<le> x"
  shows "real (length xs) * l \<le> sum_list xs"
  using assms by (induction xs) (simp_all add: algebra_simps)

lemma mean_less_last:
  fixes w :: "real list"
  assumes "sorted_wrt (<) w" "2 \<le> length w"
  shows "sum_list w / real (length w) < last w"
proof -
  define m where "m = real (length (butlast w))"
  define S where "S = sum_list (butlast w)"
  have ne: "w \<noteq> []" using assms(2) by auto
  have w: "butlast w @ [last w] = w" using ne by (rule append_butlast_last_id)
  have b: "butlast w \<noteq> []" using assms(2) by (cases w) auto
  have "sorted_wrt (<) (butlast w @ [last w])" using assms(1) by (simp only: w)
  then have "\<forall>x \<in> set (butlast w). x < last w"
    by (simp add: sorted_wrt_append)
  then have 1: "S < m * last w"
    unfolding S_def m_def using b by (rule sum_list_less_bound [rotated])
  have "sum_list (butlast w @ [last w]) = S + last w"
    by (simp add: S_def)
  then have 2: "sum_list w = S + last w"
    by (simp only: w)
  have 3: "real (length w) = m + 1"
    unfolding m_def using ne by (cases w) auto
  have "0 < m + 1" unfolding m_def by simp
  moreover have "S + last w < (m + 1) * last w"
    using 1 by (simp add: algebra_simps)
  ultimately show ?thesis
    unfolding 2 3 by (simp add: divide_less_eq mult.commute)
qed

lemma sma_less_last:
  fixes ps :: "real list"
  assumes "sorted_wrt (<) ps" "2 \<le> k" "k \<le> length ps"
  shows "sum_list (drop (length ps - k) ps) / real k < last ps"
proof -
  have "sorted_wrt (<) (drop (length ps - k) ps)"
    using assms(1) by (rule sorted_wrt_drop)
  moreover have l: "length (drop (length ps - k) ps) = k" using assms(3) by simp
  ultimately have "sum_list (drop (length ps - k) ps) / real k < last (drop (length ps - k) ps)"
    using mean_less_last [of "drop (length ps - k) ps"] assms(2) by simp
  moreover have "last (drop (length ps - k) ps) = last ps"
    using assms(2,3) by simp
  ultimately show ?thesis by simp
qed

lemma sma50_less_sma20:
  fixes ps :: "real list"
  assumes "sorted_wrt (<) ps" "50 \<le> length ps"
  shows "sum_list (drop (length ps - 50) ps) / 50 < sum_list (drop (length ps - 20) ps) / 20"
proof -
  define w where "w = drop (length ps - 50) ps"
  define A where "A = take 30 w"
  define B where "B = drop 30 w"
  have lw: "length w = 50" using assms(2) by (simp add: w_def)
  have w: "w = A @ B" by (simp add: A_def B_def)
  have B: "B = drop (length ps - 20) ps"
    using assms(2) by (simp add: B_def w_def)
  have lA: "length A = 30" and lB: "length B = 20"
    using lw by (simp_all add: A_def B_def)
  have sw: "sorted_wrt (<) (A @ B)"
    using assms(1) w sorted_wrt_drop [of "(<)" ps "length ps - 50"] by (simp add: w_def)
  have Bne: "B \<noteq> []" and Ane: "A \<noteq> []" using lA lB by auto
  have "\<forall>a \<in> set A. a < hd B"
    using sw Bne by (simp add: sorted_wrt_append)
  then have sA: "sum_list A < 30 * hd B"
    using sum_list_less_bound [OF Ane, of "hd B"] lA by simp
  have "sorted_wrt (<) B" using sw by (simp add: sorted_wrt_append)
  then have "\<forall>b \<in> set B. hd B \<le> b"
    using Bne by (cases B) auto
  then have sB: "20 * hd B \<le> sum_list B"
    using sum_list_ge_bound [of B "hd B"] lB by simp
  have "sum_list w = sum_list A + sum_list B" by (simp add: w)
  then have "sum_list w / 50 < sum_list B / 20"
    using sA sB by simp
  then show ?thesis by (simp add: w_def B)
qed

lemma determineTrend_rising:
  fixes ps :: "real list"
  assumes "8 \<le> length ps" "\<forall>p \<in> set ps. 0 < p" "s20 < last ps" "s50 < s20"
  shows "determineTrend (map Num ps) (Num s20) (Num s50)
           = (if 2 / 100 < (last ps - ps ! (length ps - 8)) / ps ! (length ps - 8)
              then bullish else sideways)"
proof -
  have ne: "ps \<noteq> []" using assms(1) by auto
  have i1: "int (length (map Num ps)) - 1 = int (length ps - 1)"
    using ne by (cases ps) auto
  have i8: "int (length (map Num ps)) - 8 = int (length ps - 8)"
    using assms(1) by simp
  have cur: "elem_at (map Num ps) (int (length (map Num ps)) - 1) = Num (last ps)"
    unfolding i1 using ne elem_at_Num [of "length ps - 1" ps] by (simp add: last_conv_nth)
  have "0 < ps ! (length ps - 8)" using assms(1,2) by simp
  moreover have "elem_at (map Num ps) (int (length (map Num ps)) - 8) = Num (ps ! (length ps - 8))"
    unfolding i8 using assms(1) elem_at_Num [of "length ps - 8" ps] by simp
  ultimately have week: "js_or (elem_at (map Num ps) (int (length (map Num ps)) - 8)) (elem_at (map Num ps) 0)
      = Num (ps ! (length ps - 8))" and nz: "ps ! (length ps - 8) \<noteq> 0"
    by (simp_all add: js_or_def)
  show ?thesis
    unfolding determineTrend_def Let_def cur week
    using nz assms(3,4) by simp
qed

lemma rising_report:
  assumes r: "generateTradingSignals rt symb ph = Inr r"
    and n: "60 \<le> length ph"
    and inc: "sorted_wrt (<) (map price ph)"
    and pos: "\<forall>p \<in> set ph. 0 < price p"
  shows "ind_value (indicators r ! 0) = Num 100"
    and "ind_signal (indicators r ! 1) = buy"
    and "ind_signal (indicators r ! 2) = buy"
    and "trend r = (if 2 / 100 < (price (last ph) - price (ph ! (length ph - 8))) / price (ph ! (length ph - 8))
                    then bullish else sideways)"
proof -
  define ps where "ps = map price ph"
  have l: "length ps = length ph" by (simp add: ps_def)
  have ne: "ps \<noteq> []" "ph \<noteq> []" using n l by auto
  have lastp: "price (ph ! (length ph - 1)) = last ps" "price (last ph) = last ps"
    using ne by (simp_all add: ps_def last_map last_conv_nth)
  have s20: "calculateSMA (map Num ps) 20 = Num (sum_list (drop (length ps - 20) ps) / 20)"
    using n l by (simp add: calculateSMA_Num [OF ne(1)])
  have s50: "calculateSMA (map Num ps) (min 50 (length ph)) = Num (sum_list (drop (length ps - 50) ps) / 50)"
    using n l by (simp add: calculateSMA_Num [OF ne(1)])
  have a20: "sum_list (drop (length ps - 20) ps) / 20 < last ps"
    using sma_less_last [of ps 20] inc n l by (simp add: ps_def)
  have a50: "sum_list (drop (length ps - 50) ps) / 50 < last ps"
    using sma_less_last [of ps 50] inc n l by (simp add: ps_def)
  have a: "sum_list (drop (length ps - 50) ps) / 50 < sum_list (drop (length ps - 20) ps) / 20"
    using sma50_less_sma20 [of ps] inc n l by (simp add: ps_def)
  note inds = report_indicators [OF r, folded ps_def, unfolded s20 s50 lastp]
  show "ind_value (indicators r ! 0) = Num 100"
    using calculateRSI_increasing [of ps 14] inc n l
    by (simp add: inds rsiIndicator_def ps_def)
  show "ind_signal (indicators r ! 1) = buy"
    using a20 by (simp add: inds sma20Indicator_def)
  show "ind_signal (indicators r ! 2) = buy"
    using a50 by (simp add: inds sma50Indicator_def)
  have "\<forall>p \<in> set ps. 0 < p" using pos by (auto simp add: ps_def)
  moreover have "8 \<le> length ps" using n l by simp
  ultimately have "determineTrend (map Num ps) (Num (sum_list (drop (length ps - 20) ps) / 20))
        (Num (sum_list (drop (length ps - 50) ps) / 50))
      = (if 2 / 100 < (last ps - ps ! (length ps - 8)) / ps ! (length ps - 8) then bullish else sideways)"
    using a20 a by (intro determineTrend_rising) simp_all
  moreover have "ps ! (length ps - 8) = price (ph ! (length ph - 8))"
    using n by (simp add: ps_def)
  ultimately show "trend r = (if 2 / 100 < (price (last ph) - price (ph ! (length ph - 8))) / price (ph ! (length ph - 8))
                    then bullish else sideways)"
    using report_trend(1) [OF r, folded ps_def, unfolded s20 s50] by (simp add: lastp l)
qed

text \<open>
  C3, as the code has it: on a strictly increasing series of at least 60 positive prices
  the RSI is at least 70 and the SMA 20 and SMA 50 indicators signal buy; the trend is
  bullish when the last price is more than 2 percent above the price seven periods
  earlier, and sideways otherwise. The indicators of a report are, in this order, the RSI,
  the SMA 20, the SMA 50, the MACD and the volume trend.
\<close>

theorem C3_rising_series:
  assumes "generateTradingSignals rt symb priceHistory = Inr r"
    and "60 \<le> length priceHistory"
    and "sorted_wrt (<) (map price priceHistory)"
    and "\<forall>p \<in> set priceHistory. 0 < price p"
  shows "Num 70 \<le> ind_value (indicators r ! 0)
         \<and> ind_signal (indicators r ! 1) = buy
         \<and> ind_signal (indicators r ! 2) = buy
         \<and> trend r =
             (if 2 / 100 < (price (last priceHistory) - price (priceHistory ! (length priceHistory - 8)))
                             / price (priceHistory ! (length priceHistory - 8))
              then bullish else sideways)"
  using rising_report [OF assms] by simp

lemma history_last: "ps \<noteq> [] \<Longrightarrow> price (last (history ps)) = last ps"
  by (simp add: history_def last_map)

lemma rise_facts:
  "length slow_rise = 60" "sorted_wrt (<) slow_rise" "\<forall>p \<in> set slow_rise. 0 < p"
  "last slow_rise = 1059" "slow_rise ! 52 = 1052"
  "length steep_rise = 60" "sorted_wrt (<) steep_rise" "\<forall>p \<in> set steep_rise. 0 < p"
  "last steep_rise = 690" "steep_rise ! 52 = 620"
  by (simp_all add: slow_rise_def steep_rise_def sorted_wrt_map last_map)

lemma history_positive: "\<forall>p \<in> set ps. 0 < p \<Longrightarrow> \<forall>x \<in> set (history ps). 0 < price x"
  by (simp add: history_def)

theorem C3_rising_series_witness:
  "\<exists>r. generateTradingSignals sample_runtime ''BTC'' (history steep_rise) = Inr r
       \<and> Num 70 \<le> ind_value (indicators r ! 0)
       \<and> ind_signal (indicators r ! 1) = buy \<and> ind_signal (indicators r ! 2) = buy
       \<and> trend r = bullish"
proof -
  obtain r where r: "generateTradingSignals sample_runtime ''BTC'' (history steep_rise) = Inr r"
    using report_exists [of "history steep_rise" sample_runtime "''BTC''"] by (auto simp add: rise_facts)
  have "steep_rise \<noteq> []" using rise_facts(6) by auto
  then have "price (last (history steep_rise)) = 690"
    by (simp add: history_last rise_facts)
  moreover have "price (history steep_rise ! (length (history steep_rise) - 8)) = 620"
    by (simp add: rise_facts)
  ultimately show ?thesis
    using C3_rising_series [OF r _ _ history_positive [OF rise_facts(8)]] r
    by (simp add: rise_facts)
qed

text \<open>
  The claim as stated fails on the prices 1000, 1001, ..., 1059: the series rises at every
  step, yet the last price is less than 2 percent above the one seven periods earlier and
  the trend is sideways.
\<close>

theorem C3_rising_series_counterexample:
  "length (history slow_rise) = 60 \<and> sorted_wrt (<) (map price (history slow_rise))
   \<and> \<not> isl (generateTradingSignals sample_runtime ''BTC'' (history slow_rise))
   \<and> trend (projr (generateTradingSignals sample_runtime ''BTC'' (history slow_rise))) = sideways"
proof -
  obtain r where r: "generateTradingSignals sample_runtime ''BTC'' (history slow_rise) = Inr r"
    using report_exists [of "history slow_rise" sample_runtime "''BTC''"] by (auto simp add: rise_facts)
  have "slow_rise \<noteq> []" using rise_facts(1) by auto
  then have "price (last (history slow_rise)) = 1059"
    by (simp add: history_last rise_facts)
  moreover have "price (history slow_rise ! (length (history slow_rise) - 8)) = 1052"
    by (simp add: rise_facts)
  ultimately have "trend r = sideways"
    using rising_report(4) [OF r _ _ history_positive [OF rise_facts(3)]]
    by (simp add: rise_facts)
  then show ?thesis
    unfolding r by (simp add: rise_facts)
qed

subsection \<open>The store\<close>

lemma calculateSupportResistance_st_eq:
  assumes "prices < length st"
  shows "calculateSupportResistance_st prices st =
           (calculateSupportResistance (numbers (st ! prices)),
            st @ [Numbers (sort_by (\<lambda>a b. a - b) (numbers (st ! prices)))])"
  using assms
  by (simp add: calculateSupportResistance_st_def calculateSupportResistance_def alloc_def
        sort_in_place_def Let_def nth_append)

lemma generateTradingSignals_st_store:
  assumes "priceHistory < length st" "\<not> length (points (st ! priceHistory)) < 14"
  shows "\<exists>ext. generateTradingSignals_st rt symb priceHistory st
           = (generateTradingSignals rt symb (points (st ! priceHistory)), st @ ext)"
  using assms
  by (simp add: generateTradingSignals_st_def generateTradingSignals_def alloc_def push_def
        calculateSupportResistance_st_eq Let_def nth_append)

lemma generateTradingSignals_st_short:
  assumes "length (points (st ! priceHistory)) < 14"
  shows "generateTradingSignals_st rt symb priceHistory st
           = (generateTradingSignals rt symb (points (st ! priceHistory)), st)"
  using assms by (simp add: generateTradingSignals_st_def generateTradingSignals_def)

lemma generateTradingSignals_st_extends:
  assumes "priceHistory < length st"
  shows "\<exists>ext. generateTradingSignals_st rt symb priceHistory st
           = (generateTradingSignals rt symb (points (st ! priceHistory)), st @ ext)"
proof (cases "length (points (st ! priceHistory)) < 14")
  case True
  then have "generateTradingSignals_st rt symb priceHistory st
           = (generateTradingSignals rt symb (points (st ! priceHistory)), st @ [])"
    by (simp add: generateTradingSignals_st_short)
  then show ?thesis by blast
next
  case False
  with assms show ?thesis by (rule generateTradingSignals_st_store)
qed

text \<open>In the store a sort in place is visible: it changes the array it is called on.\<close>

lemma sort_in_place_changes:
  "sort_in_place (\<lambda>a b. a - b) 0 [Numbers [Num 2, Num 1]] = [Numbers [Num 1, Num 2]]"
  by (simp add: sort_in_place_def sort_by_def)

text \<open>
  C9: a run of the engine on the store returns what the engine computes from the contents
  of its input array and leaves every array that existed before the call as it was, the
  input array among them; the support and resistance computation sorts a fresh copy and
  leaves the array it is given as it was.
\<close>

theorem C9_input_unchanged:
  assumes "priceHistory < length st"
  shows "fst (generateTradingSignals_st rt symb priceHistory st)
           = generateTradingSignals rt symb (points (st ! priceHistory))
         \<and> snd (generateTradingSignals_st rt symb priceHistory st) ! priceHistory = st ! priceHistory
         \<and> take (length st) (snd (generateTradingSignals_st rt symb priceHistory st)) = st
         \<and> (prices < length st' \<longrightarrow>
              snd (calculateSupportResistance_st prices st') ! prices = st' ! prices
              \<and> take (length st') (snd (calculateSupportResistance_st prices st')) = st')"
proof -
  obtain ext where "generateTradingSignals_st rt symb priceHistory st
      = (generateTradingSignals rt symb (points (st ! priceHistory)), st @ ext)"
    using generateTradingSignals_st_extends [OF assms] by blast
  then have "fst (generateTradingSignals_st rt symb priceHistory st)
           = generateTradingSignals rt symb (points (st ! priceHistory))"
    and "snd (generateTradingSignals_st rt symb priceHistory st) ! priceHistory = st ! priceHistory"
    and "take (length st) (snd (generateTradingSignals_st rt symb priceHistory st)) = st"
    using assms by (simp_all add: nth_append)
  moreover have "snd (calculateSupportResistance_st prices st') ! prices = st' ! prices
      \<and> take (length st') (snd (calculateSupportResistance_st prices st')) = st'"
    if "prices < length st'"
    using that by (simp add: calculateSupportResistance_st_eq nth_append)
  ultimately show ?thesis by blast
qed

theorem C9_input_unchanged_witness:
  "snd (generateTradingSignals_st sample_runtime ''BTC'' 0 [Points (history (replicate 14 100))]) ! 0
     = Points (history (replicate 14 100))
   \<and> snd (calculateSupportResistance_st 0 [Numbers [Num 3, Num 1, Num 2]]) ! 0
     = Numbers [Num 3, Num 1, Num 2]"
  using C9_input_unchanged [where priceHistory = 0 and st = "[Points (history (replicate 14 100))]"
      and prices = 0 and st' = "[Numbers [Num 3, Num 1, Num 2]]"
      and rt = sample_runtime and symb = "''BTC''"]
  by simp

end
